theory Spec2Isabelle
  imports Main
begin

section \<open>Python values and errors\<close>

text \<open>
  The exceptions that the modelled code of \<^verbatim>\<open>src/nxbt/bluez.py\<close> and \<^verbatim>\<open>src/main.py\<close> can
  raise. \<open>Exception\<close> carries the message of a bare \<^verbatim>\<open>raise Exception(msg)\<close>; \<open>KeyError\<close>
  carries the missing key.
\<close>

datatype py_error =
    Exception string
  | KeyError string
  | IndexError
  | AssertionError
  | TypeError
  | AttributeError
  | FileNotFoundError
  | IsADirectoryError
  | FileExistsError
  | NotADirectoryError
  | UnicodeDecodeError
  | DBusException string

subsection \<open>Strings\<close>

text \<open>
  Python \<^verbatim>\<open>str\<close> values are modelled as \<open>string\<close>. \<^verbatim>\<open>str.upper\<close> is modelled on the ASCII
  letters, which is the range of Bluetooth aliases and addresses the code compares;
  every other character is left as it is.
\<close>

definition char_upper :: "char \<Rightarrow> char" where
  \<comment> \<open>a letter \<open>a\<close> to \<open>z\<close> (codes 97 to 122) loses 32, that is bit 5\<close>
  "char_upper c =
     (if 97 \<le> (of_char c :: nat) \<and> (of_char c :: nat) \<le> 122
      then Char (digit0 c) (digit1 c) (digit2 c) (digit3 c) (digit4 c) False (digit6 c) (digit7 c)
      else c)"

definition upper :: "string \<Rightarrow> string" where
  "upper s = map char_upper s"

text \<open>\<^verbatim>\<open>s.split(sep)\<close> for a one-character separator: never the empty list.\<close>

fun split_on :: "char \<Rightarrow> string \<Rightarrow> string list" where
  "split_on sep [] = [[]]"
| "split_on sep (c # cs) =
     (if c = sep then [] # split_on sep cs
      else (case split_on sep cs of
              [] \<Rightarrow> [[c]]
            | w # ws \<Rightarrow> (c # w) # ws))"

definition startswith :: "string \<Rightarrow> string \<Rightarrow> bool" where
  "startswith s p = (take (length p) s = p)"

definition endswith :: "string \<Rightarrow> string \<Rightarrow> bool" where
  "endswith s p = (length p \<le> length s \<and> drop (length s - length p) s = p)"

section \<open>The D-Bus object tree of the Bluetooth service\<close>

text \<open>
  \<^verbatim>\<open>manager.GetManagedObjects().items()\<close> yields, in the dictionary's iteration order, each
  object path with its interfaces, and each interface with its properties. A bus gives
  that list for a service name. Property values are the two kinds the code reads:
  strings (\<^verbatim>\<open>Address\<close>, \<^verbatim>\<open>Alias\<close>) and booleans (\<^verbatim>\<open>Connected\<close>).
\<close>

datatype dbus_value = DStr string | DBool bool

type_synonym props = "(string \<times> dbus_value) list"
type_synonym ifaces = "(string \<times> props) list"
type_synonym managed_objects = "(string \<times> ifaces) list"
type_synonym bus = "string \<Rightarrow> managed_objects"

definition SERVICE_NAME :: string where
  "SERVICE_NAME = ''org.bluez''"

definition BLUEZ_OBJECT_PATH :: string where
  "BLUEZ_OBJECT_PATH = ''/org/bluez''"

definition ADAPTER_INTERFACE :: string where
  "ADAPTER_INTERFACE = SERVICE_NAME @ ''.Adapter1''"

definition PROFILEMANAGER_INTERFACE :: string where
  "PROFILEMANAGER_INTERFACE = SERVICE_NAME @ ''.ProfileManager1''"

definition DEVICE_INTERFACE :: string where
  "DEVICE_INTERFACE = SERVICE_NAME @ ''.Device1''"

text \<open>Truth value of a property in a condition (\<^verbatim>\<open>if device_conn_status:\<close>).\<close>

fun dbus_truthy :: "dbus_value \<Rightarrow> bool" where
  "dbus_truthy (DBool b) = b"
| "dbus_truthy (DStr s) = (s \<noteq> [])"

text \<open>\<^verbatim>\<open>value.upper()\<close> on a property: only strings have the method.\<close>

fun dbus_upper :: "dbus_value \<Rightarrow> py_error + string" where
  "dbus_upper (DStr s) = Inr (upper s)"
| "dbus_upper (DBool b) = Inl AttributeError"

text \<open>
  \<^verbatim>\<open>dbus.Interface(bus.get_object(service, path), "org.freedesktop.DBus.Properties").Get(iface, name)\<close>:
  the property of the object at that path, a D-Bus error when the object, the interface or
  the property does not exist.
\<close>

definition Get :: "bus \<Rightarrow> string \<Rightarrow> string \<Rightarrow> string \<Rightarrow> string \<Rightarrow> py_error + dbus_value" where
  "Get b service path iface name =
     (case map_of (b service) path of
        None \<Rightarrow> Inl (DBusException ''UnknownObject'')
      | Some ifs \<Rightarrow>
          (case map_of ifs iface of
             None \<Rightarrow> Inl (DBusException ''UnknownInterface'')
           | Some ps \<Rightarrow>
               (case map_of ps name of
                  None \<Rightarrow> Inl (DBusException ''UnknownProperty'')
                | Some v \<Rightarrow> Inr v)))"

subsection \<open>\<^verbatim>\<open>find_object_path\<close> and \<^verbatim>\<open>find_objects\<close>\<close>

text \<open>
  \<^verbatim>\<open>find_object_path\<close> returns the first path whose object has the interface and, when an
  object name is given, whose \<^verbatim>\<open>Address\<close> equals the name or whose path ends with it;
  \<open>None\<close> when the loop finds nothing. \<^verbatim>\<open>managed_interface["Address"]\<close> raises
  \<^verbatim>\<open>KeyError\<close> on an interface without that property.
\<close>

fun find_object_path_loop ::
  "managed_objects \<Rightarrow> string \<Rightarrow> string option \<Rightarrow> py_error + string option" where
  "find_object_path_loop [] interface_name object_name = Inr None"
| "find_object_path_loop ((path, ifs) # rest) interface_name object_name =
     (case map_of ifs interface_name of
        None \<Rightarrow> find_object_path_loop rest interface_name object_name
      | Some managed_interface \<Rightarrow>
          (case object_name of
             None \<Rightarrow> Inr (Some path)
           | Some n \<Rightarrow>
               if n = [] then Inr (Some path)
               else (case map_of managed_interface ''Address'' of
                       None \<Rightarrow> Inl (KeyError ''Address'')
                     | Some a \<Rightarrow>
                         if a = DStr n \<or> endswith path n then Inr (Some path)
                         else find_object_path_loop rest interface_name object_name)))"

definition find_object_path ::
  "bus \<Rightarrow> string \<Rightarrow> string \<Rightarrow> string option \<Rightarrow> py_error + string option" where
  "find_object_path b service_name interface_name object_name =
     find_object_path_loop (b service_name) interface_name object_name"

fun find_objects_loop :: "managed_objects \<Rightarrow> string \<Rightarrow> string list \<Rightarrow> string list" where
  "find_objects_loop [] interface_name paths = paths"
| "find_objects_loop ((path, ifs) # rest) interface_name paths =
     (case map_of ifs interface_name of
        None \<Rightarrow> find_objects_loop rest interface_name paths
      | Some managed_interface \<Rightarrow> find_objects_loop rest interface_name (paths @ [path]))"

definition find_objects :: "bus \<Rightarrow> string \<Rightarrow> string \<Rightarrow> string list" where
  "find_objects b service_name interface_name =
     find_objects_loop (b service_name) interface_name []"

subsection \<open>\<^verbatim>\<open>find_devices_by_alias\<close>\<close>

text \<open>
  The module-level sibling of \<^verbatim>\<open>find_connected_devices\<close>: it keeps a device only when
  its alias, in upper case, equals the requested alias in upper case. It returns the
  addresses and the matching paths (\<^verbatim>\<open>return_path=True\<close>).
\<close>

fun find_devices_by_alias_loop ::
  "bus \<Rightarrow> string \<Rightarrow> string list \<Rightarrow> string list \<Rightarrow> string list
     \<Rightarrow> py_error + (string list \<times> string list)" where
  "find_devices_by_alias_loop b alias [] addresses matching_paths =
     Inr (addresses, matching_paths)"
| "find_devices_by_alias_loop b alias (path # rest) addresses matching_paths =
     (case Get b SERVICE_NAME path DEVICE_INTERFACE ''Alias'' of
        Inl e \<Rightarrow> Inl e
      | Inr al \<Rightarrow>
     (case dbus_upper al of
        Inl e \<Rightarrow> Inl e
      | Inr device_alias \<Rightarrow>
     (case Get b SERVICE_NAME path DEVICE_INTERFACE ''Address'' of
        Inl e \<Rightarrow> Inl e
      | Inr ad \<Rightarrow>
     (case dbus_upper ad of
        Inl e \<Rightarrow> Inl e
      | Inr device_addr \<Rightarrow>
          if upper device_alias = upper alias
          then find_devices_by_alias_loop b alias rest
                 (addresses @ [device_addr]) (matching_paths @ [path])
          else find_devices_by_alias_loop b alias rest addresses matching_paths))))"

definition find_devices_by_alias ::
  "bus \<Rightarrow> string \<Rightarrow> py_error + (string list \<times> string list)" where
  "find_devices_by_alias b alias =
     find_devices_by_alias_loop b alias (find_objects b SERVICE_NAME DEVICE_INTERFACE) [] []"

subsection \<open>The class \<^verbatim>\<open>BlueZ\<close>\<close>

text \<open>
  The constructor keeps the bus, the adapter's object path and its id (the last component
  of the path). The proxies it builds (\<^verbatim>\<open>bus.get_object\<close>, \<^verbatim>\<open>dbus.Interface\<close>) are handles on a
  path: building them reads nothing from the object tree, so they are not fields here.
  The parameter is \<open>None\<close> for Python's \<^verbatim>\<open>None\<close>; \<open>BlueZ_default\<close> is the call without an
  argument.
\<close>

record bluez =
  bluez_bus :: bus
  device_path :: string
  device_id :: string

definition BlueZ_init :: "bus \<Rightarrow> string option \<Rightarrow> py_error + bluez" where
  "BlueZ_init b adapter_path =
     (case (if adapter_path = None
            then find_object_path b SERVICE_NAME ADAPTER_INTERFACE None
            else Inr adapter_path) of
        Inl e \<Rightarrow> Inl e
      | Inr None \<Rightarrow> Inl (Exception ''Unable to find a bluetooth adapter'')
      | Inr (Some p) \<Rightarrow>
          Inr \<lparr>bluez_bus = b, device_path = p, device_id = last (split_on CHR ''/'' p)\<rparr>)"

definition BlueZ_default :: "bus \<Rightarrow> py_error + bluez" where
  "BlueZ_default b = BlueZ_init b (Some ''/org/bluez/hci0'')"

text \<open>
  \<^verbatim>\<open>find_connected_devices(self, alias_filter=False)\<close>. The filter is \<open>None\<close> for
  \<^verbatim>\<open>False\<close>. Both branches of the inner conditional append the path, as in the source.
\<close>

fun find_connected_devices_loop ::
  "bus \<Rightarrow> string option \<Rightarrow> string list \<Rightarrow> string list \<Rightarrow> py_error + string list" where
  "find_connected_devices_loop b alias_filter [] conn_devices = Inr conn_devices"
| "find_connected_devices_loop b alias_filter (path # rest) conn_devices =
     (case Get b SERVICE_NAME path DEVICE_INTERFACE ''Connected'' of
        Inl e \<Rightarrow> Inl e
      | Inr device_conn_status \<Rightarrow>
     (case Get b SERVICE_NAME path DEVICE_INTERFACE ''Alias'' of
        Inl e \<Rightarrow> Inl e
      | Inr al \<Rightarrow>
     (case dbus_upper al of
        Inl e \<Rightarrow> Inl e
      | Inr device_alias \<Rightarrow>
          if dbus_truthy device_conn_status then
            (if (case alias_filter of
                   None \<Rightarrow> False
                 | Some f \<Rightarrow> f \<noteq> [] \<and> device_alias = upper f)
             then find_connected_devices_loop b alias_filter rest (conn_devices @ [path])
             else find_connected_devices_loop b alias_filter rest (conn_devices @ [path]))
          else find_connected_devices_loop b alias_filter rest conn_devices)))"

definition find_connected_devices :: "bluez \<Rightarrow> string option \<Rightarrow> py_error + string list" where
  "find_connected_devices self alias_filter =
     find_connected_devices_loop (bluez_bus self) alias_filter
       (find_objects (bluez_bus self) SERVICE_NAME DEVICE_INTERFACE) []"

section \<open>The host: files, installed tools and commands\<close>

text \<open>
  What the module reaches through \<^verbatim>\<open>subprocess\<close>, \<^verbatim>\<open>shutil.which\<close>, \<^verbatim>\<open>open\<close>, \<^verbatim>\<open>pathlib\<close>, \<^verbatim>\<open>os\<close>
  and \<^verbatim>\<open>time\<close>. The files are a tree: a directory lists its entries by name, the first
  entry of a name being the one that counts. A file holds text, kept in its UTF-8 bytes.
  Symbolic links are not told apart from what they point to, and file operations are
  taken to be permitted (the module requires root).

  A command that is started gives a completed process: its exit code and the bytes it
  wrote to stdout and stderr. What a command answers may depend on the commands run
  before it, so the host's \<open>respond\<close> takes that history. A command starts when its
  program is found on the search path, which is what \<^verbatim>\<open>shutil.which\<close> reports.
\<close>

datatype fs_node = File string | Dir "(string \<times> fs_node) list"

record completed_process =
  returncode :: int
  stdout :: string
  stderr :: string

record host =
  root :: fs_node
  which :: "string \<Rightarrow> string option"
  respond :: "string list list \<Rightarrow> string list \<Rightarrow> completed_process"
  commands :: "string list list"
  slept_ms :: nat

subsection \<open>The file tree\<close>

text \<open>The names along an absolute path.\<close>

definition components :: "string \<Rightarrow> string list" where
  "components p = filter (\<lambda>name. name \<noteq> []) (split_on CHR ''/'' p)"

text \<open>
  Walking a path from a node, as the system does for every call that takes a path: a
  missing name is \<^verbatim>\<open>FileNotFoundError\<close>, a regular file where the walk has to go on is
  \<^verbatim>\<open>NotADirectoryError\<close>.
\<close>

fun lookup :: "fs_node \<Rightarrow> string list \<Rightarrow> py_error + fs_node" where
  "lookup n [] = Inr n"
| "lookup (File c) (x # xs) = Inl NotADirectoryError"
| "lookup (Dir es) (x # xs) =
     (case map_of es x of
        None \<Rightarrow> Inl FileNotFoundError
      | Some n \<Rightarrow> lookup n xs)"

fun set_entry :: "string \<Rightarrow> fs_node \<Rightarrow> (string \<times> fs_node) list \<Rightarrow> (string \<times> fs_node) list" where
  "set_entry x n [] = [(x, n)]"
| "set_entry x n ((y, m) # es) = (if y = x then (x, n) # es else (y, m) # set_entry x n es)"

definition del_entry :: "string \<Rightarrow> (string \<times> fs_node) list \<Rightarrow> (string \<times> fs_node) list" where
  "del_entry x es = filter (\<lambda>e. fst e \<noteq> x) es"

text \<open>
  \<^verbatim>\<open>Path.mkdir(parents=True, exist_ok=True)\<close>: a directory on the way is kept, a missing one
  is made, a regular file at the end is \<^verbatim>\<open>FileExistsError\<close> and one on the way is
  \<^verbatim>\<open>NotADirectoryError\<close>. Either error is raised before anything is made.
\<close>

fun mkdir_parents :: "fs_node \<Rightarrow> string list \<Rightarrow> py_error + fs_node" where
  "mkdir_parents (Dir es) [] = Inr (Dir es)"
| "mkdir_parents (File c) [] = Inl FileExistsError"
| "mkdir_parents (File c) (x # xs) = Inl NotADirectoryError"
| "mkdir_parents (Dir es) (x # xs) =
     (case (case map_of es x of
              None \<Rightarrow> mkdir_parents (Dir []) xs
            | Some n \<Rightarrow> mkdir_parents n xs) of
        Inl e \<Rightarrow> Inl e
      | Inr n' \<Rightarrow> Inr (Dir (set_entry x n' es)))"

text \<open>\<^verbatim>\<open>open(path, "w")\<close> followed by the write of the whole content.\<close>

fun write_file :: "fs_node \<Rightarrow> string list \<Rightarrow> string \<Rightarrow> py_error + fs_node" where
  "write_file n [] content = Inl IsADirectoryError"
| "write_file (File c) (x # xs) content = Inl NotADirectoryError"
| "write_file (Dir es) [x] content =
     (case map_of es x of
        Some (Dir ds) \<Rightarrow> Inl IsADirectoryError
      | _ \<Rightarrow> Inr (Dir (set_entry x (File content) es)))"
| "write_file (Dir es) (x # y # ys) content =
     (case map_of es x of
        None \<Rightarrow> Inl FileNotFoundError
      | Some n \<Rightarrow>
          (case write_file n (y # ys) content of
             Inl e \<Rightarrow> Inl e
           | Inr n' \<Rightarrow> Inr (Dir (set_entry x n' es))))"

text \<open>\<^verbatim>\<open>os.remove(path)\<close>.\<close>

fun remove :: "fs_node \<Rightarrow> string list \<Rightarrow> py_error + fs_node" where
  "remove n [] = Inl IsADirectoryError"
| "remove (File c) (x # xs) = Inl NotADirectoryError"
| "remove (Dir es) [x] =
     (case map_of es x of
        None \<Rightarrow> Inl FileNotFoundError
      | Some (Dir ds) \<Rightarrow> Inl IsADirectoryError
      | Some (File c) \<Rightarrow> Inr (Dir (del_entry x es)))"
| "remove (Dir es) (x # y # ys) =
     (case map_of es x of
        None \<Rightarrow> Inl FileNotFoundError
      | Some n \<Rightarrow>
          (case remove n (y # ys) of
             Inl e \<Rightarrow> Inl e
           | Inr n' \<Rightarrow> Inr (Dir (set_entry x n' es))))"

subsection \<open>Decoding bytes\<close>

text \<open>
  \<^verbatim>\<open>bytes.decode("utf-8")\<close> raises \<^verbatim>\<open>UnicodeDecodeError\<close> on a byte sequence that is not
  well-formed UTF-8 and otherwise gives the text, kept here in its UTF-8 bytes.
\<close>

definition cont_byte :: "nat \<Rightarrow> bool" where
  "cont_byte b = (128 \<le> b \<and> b \<le> 191)"

fun utf8_valid :: "nat list \<Rightarrow> bool" where
  "utf8_valid [] = True"
| "utf8_valid (b # bs) =
     (if b < 128 then utf8_valid bs
      else if 194 \<le> b \<and> b \<le> 223 then
        (case bs of
           c1 # r \<Rightarrow> cont_byte c1 \<and> utf8_valid r
         | _ \<Rightarrow> False)
      else if 224 \<le> b \<and> b \<le> 239 then
        (case bs of
           c1 # c2 # r \<Rightarrow>
             (if b = 224 then 160 \<le> c1 else True) \<and> (if b = 237 then c1 \<le> 159 else True) \<and>
             cont_byte c1 \<and> cont_byte c2 \<and> utf8_valid r
         | _ \<Rightarrow> False)
      else if 240 \<le> b \<and> b \<le> 244 then
        (case bs of
           c1 # c2 # c3 # r \<Rightarrow>
             (if b = 240 then 144 \<le> c1 else True) \<and> (if b = 244 then c1 \<le> 143 else True) \<and>
             cont_byte c1 \<and> cont_byte c2 \<and> cont_byte c3 \<and> utf8_valid r
         | _ \<Rightarrow> False)
      else False)"

definition decode_utf8 :: "string \<Rightarrow> py_error + string" where
  "decode_utf8 bs = (if utf8_valid (map of_char bs) then Inr bs else Inl UnicodeDecodeError)"

subsection \<open>\<^verbatim>\<open>_run_command\<close>\<close>

text \<open>
  \<^verbatim>\<open>subprocess.run(command, stdout=PIPE, stderr=PIPE)\<close>: without arguments it raises
  \<^verbatim>\<open>IndexError\<close>, with a program that is not found it raises \<^verbatim>\<open>FileNotFoundError\<close>, and in
  both cases no process has run; otherwise the process runs to its end.
\<close>

definition subprocess_run ::
  "string list \<Rightarrow> host \<Rightarrow> (py_error + completed_process) \<times> host" where
  "subprocess_run command h =
     (case command of
        [] \<Rightarrow> (Inl IndexError, h)
      | program # args \<Rightarrow>
          if which h program = None then (Inl FileNotFoundError, h)
          else (Inr (respond h (commands h) command), h\<lparr>commands := commands h @ [command]\<rparr>))"

text \<open>
  \<^verbatim>\<open>_run_command\<close> (an Isabelle name cannot start with an underscore): the text of stderr
  with every newline removed is the error message; the exit code is not read.
\<close>

definition run_command :: "string list \<Rightarrow> host \<Rightarrow> (py_error + completed_process) \<times> host" where
  "run_command command h =
     (case subprocess_run command h of
        (Inl e, h') \<Rightarrow> (Inl e, h')
      | (Inr result, h') \<Rightarrow>
          (case decode_utf8 (stderr result) of
             Inl e \<Rightarrow> (Inl e, h')
           | Inr text \<Rightarrow>
               (let cmd_err = filter (\<lambda>c. c \<noteq> CHR 0x0A) text
                in if cmd_err \<noteq> [] then (Inl (Exception cmd_err), h') else (Inr result, h'))))"

subsection \<open>\<^verbatim>\<open>replace_mac_addresses\<close> and \<^verbatim>\<open>set_class\<close>\<close>

definition tool_missing :: "string \<Rightarrow> py_error" where
  "tool_missing tool =
     Exception (tool @ '' is not available on this system.'' @
                ''If you can, please install this tool, as '' @
                ''it is required for proper functionality.'')"

text \<open>
  The loop \<^verbatim>\<open>for i in range(len(adapter_paths))\<close> runs over the list of indices.
  \<^verbatim>\<open>addresses[i]\<close> and \<^verbatim>\<open>mac[5]\<close> raise \<^verbatim>\<open>IndexError\<close> out of range.
\<close>

fun replace_mac_addresses_loop ::
  "string list \<Rightarrow> string list \<Rightarrow> nat list \<Rightarrow> host \<Rightarrow> (py_error + unit) \<times> host" where
  "replace_mac_addresses_loop adapter_paths addresses [] h = (Inr (), h)"
| "replace_mac_addresses_loop adapter_paths addresses (i # rest) h =
     (let adapter_id = last (split_on CHR ''/'' (adapter_paths ! i)) in
      if \<not> i < length addresses then (Inl IndexError, h)
      else
        (let mac = split_on CHR '':'' (addresses ! i) in
         if \<not> 5 < length mac then (Inl IndexError, h)
         else
           (let cmds = [''hcitool'', ''-i'', adapter_id, ''cmd'', ''0x3f'', ''0x001'',
                        ''0x'' @ mac ! 5, ''0x'' @ mac ! 4, ''0x'' @ mac ! 3, ''0x'' @ mac ! 2,
                        ''0x'' @ mac ! 1, ''0x'' @ mac ! 0]
            in case run_command cmds h of
                 (Inl e, h1) \<Rightarrow> (Inl e, h1)
               | (Inr r1, h1) \<Rightarrow>
                   (case run_command [''hciconfig'', adapter_id, ''reset''] h1 of
                      (Inl e, h2) \<Rightarrow> (Inl e, h2)
                    | (Inr r2, h2) \<Rightarrow>
                        replace_mac_addresses_loop adapter_paths addresses rest h2))))"

definition replace_mac_addresses ::
  "string list \<Rightarrow> string list \<Rightarrow> host \<Rightarrow> (py_error + unit) \<times> host" where
  "replace_mac_addresses adapter_paths addresses h =
     (if which h ''hcitool'' = None then (Inl (tool_missing ''hcitool''), h)
      else if which h ''hciconfig'' = None then (Inl (tool_missing ''hciconfig''), h)
      else if addresses \<noteq> [] \<and> length addresses \<noteq> length adapter_paths
      then (Inl AssertionError, h)
      else replace_mac_addresses_loop adapter_paths addresses [0..<length adapter_paths] h)"

definition set_class :: "bluez \<Rightarrow> string \<Rightarrow> host \<Rightarrow> (py_error + unit) \<times> host" where
  "set_class self device_class h =
     (if which h ''hciconfig'' = None then (Inl (tool_missing ''hciconfig''), h)
      else (case run_command [''hciconfig'', device_id self, ''class'', device_class] h of
              (Inl e, h1) \<Rightarrow> (Inl e, h1)
            | (Inr r, h1) \<Rightarrow> (Inr (), h1)))"

subsection \<open>\<^verbatim>\<open>toggle_clean_bluez\<close>\<close>

text \<open>
  Reading a text file line by line: Python translates \<^verbatim>\<open>\r\n\<close> and \<^verbatim>\<open>\r\<close> to \<^verbatim>\<open>\n\<close> and
  yields each line with its newline.
\<close>

fun universal_newlines :: "string \<Rightarrow> string" where
  "universal_newlines [] = []"
| "universal_newlines [c] = [if c = CHR 0x0D then CHR 0x0A else c]"
| "universal_newlines (c # d # cs) =
     (if c = CHR 0x0D then
        (if d = CHR 0x0A then CHR 0x0A # universal_newlines cs
         else CHR 0x0A # universal_newlines (d # cs))
      else c # universal_newlines (d # cs))"

fun keep_ends :: "string \<Rightarrow> string \<Rightarrow> string list" where
  "keep_ends cur [] = (if cur = [] then [] else [cur])"
| "keep_ends cur (c # cs) =
     (if c = CHR 0x0A then (cur @ [c]) # keep_ends [] cs else keep_ends (cur @ [c]) cs)"

definition file_lines :: "string \<Rightarrow> string list" where
  "file_lines content = keep_ends [] (universal_newlines content)"

text \<open>
  \<^verbatim>\<open>str.strip()\<close> removes the white space at both ends. The white-space characters of
  Python, each in its UTF-8 bytes: U+0009 to U+000D, U+001C to U+0020, U+0085, U+00A0,
  U+1680, U+2000 to U+200A, U+2028, U+2029, U+202F, U+205F and U+3000.
\<close>

definition white_space :: "nat list list" where
  "white_space =
     [[9], [10], [11], [12], [13], [28], [29], [30], [31], [32],
      [194, 133], [194, 160], [225, 154, 128],
      [226, 128, 128], [226, 128, 129], [226, 128, 130], [226, 128, 131], [226, 128, 132],
      [226, 128, 133], [226, 128, 134], [226, 128, 135], [226, 128, 136], [226, 128, 137],
      [226, 128, 138], [226, 128, 168], [226, 128, 169], [226, 128, 175], [226, 129, 159],
      [227, 128, 128]]"

fun strip_front :: "nat list list \<Rightarrow> string \<Rightarrow> string" where
  "strip_front ws [] = []"
| "strip_front ws (c # cs) =
     (if [of_char c] \<in> set ws then strip_front ws cs
      else
        (case cs of
           [] \<Rightarrow> c # cs
         | d # r \<Rightarrow>
             if [of_char c, of_char d] \<in> set ws then strip_front ws r
             else
               (case r of
                  [] \<Rightarrow> c # cs
                | e # r' \<Rightarrow>
                    if [of_char c, of_char d, of_char e] \<in> set ws then strip_front ws r'
                    else c # cs)))"

definition strip :: "string \<Rightarrow> string" where
  "strip s = rev (strip_front (map rev white_space) (rev (strip_front white_space s)))"

definition service_path :: string where
  "service_path = ''/lib/systemd/system/bluetooth.service''"

definition override_dir :: string where
  "override_dir = ''/run/systemd/system/bluetooth.service.d''"

definition override_path :: string where
  "override_path = override_dir @ ''/'' @ ''nxbt.conf''"

text \<open>The \<^verbatim>\<open>for line in f: ... break / else: raise\<close> loop over the service file.\<close>

fun exec_start_loop :: "string list \<Rightarrow> py_error + string" where
  "exec_start_loop [] =
     Inl (Exception ''systemd service file doesn't have a ExecStart line'')"
| "exec_start_loop (line # rest) =
     (if startswith line ''ExecStart='' then Inr (strip line @ '' --compat --noplugin=*'')
      else exec_start_loop rest)"

text \<open>The two commands and the pause that end \<^verbatim>\<open>toggle_clean_bluez\<close> when it did change the override.\<close>

definition restart_bluetooth :: "host \<Rightarrow> (py_error + unit) \<times> host" where
  "restart_bluetooth h =
     (case run_command [''systemctl'', ''daemon-reload''] h of
        (Inl e, h1) \<Rightarrow> (Inl e, h1)
      | (Inr r1, h1) \<Rightarrow>
          (case run_command [''systemctl'', ''restart'', ''bluetooth''] h1 of
             (Inl e, h2) \<Rightarrow> (Inl e, h2)
           | (Inr r2, h2) \<Rightarrow> (Inr (), h2\<lparr>slept_ms := slept_ms h2 + 500\<rparr>)))"

text \<open>
  \<^verbatim>\<open>override_path.is_file()\<close> is true for a regular file and false for anything else,
  also when the path cannot be walked. \<^verbatim>\<open>os.remove\<close> is inside
  \<^verbatim>\<open>try: ... except FileNotFoundError: return\<close>: that exception alone ends the call
  normally, any other is raised.
\<close>

definition toggle_clean_bluez :: "bool \<Rightarrow> host \<Rightarrow> (py_error + unit) \<times> host" where
  "toggle_clean_bluez toggle h =
     (if toggle then
        (case lookup (root h) (components override_path) of
           Inr (File c) \<Rightarrow> (Inr (), h)
         | _ \<Rightarrow>
           (case lookup (root h) (components service_path) of
              Inl e \<Rightarrow> (Inl e, h)
            | Inr (Dir ds) \<Rightarrow> (Inl IsADirectoryError, h)
            | Inr (File content) \<Rightarrow>
                (case exec_start_loop (file_lines content) of
                   Inl e \<Rightarrow> (Inl e, h)
                 | Inr exec_start \<Rightarrow>
                     (let override = ''[Service]'' @ [CHR 0x0A] @ ''ExecStart='' @ [CHR 0x0A] @ exec_start
                      in case mkdir_parents (root h) (components override_dir) of
                           Inl e \<Rightarrow> (Inl e, h)
                         | Inr r1 \<Rightarrow>
                             (case write_file r1 (components override_path) override of
                                Inl e \<Rightarrow> (Inl e, h\<lparr>root := r1\<rparr>)
                              | Inr r2 \<Rightarrow> restart_bluetooth (h\<lparr>root := r2\<rparr>))))))
      else
        (case remove (root h) (components override_path) of
           Inl e \<Rightarrow> if e = FileNotFoundError then (Inr (), h) else (Inl e, h)
         | Inr r1 \<Rightarrow> restart_bluetooth (h\<lparr>root := r1\<rparr>)))"

section \<open>The control endpoints and the transmission loop (\<^verbatim>\<open>src/main.py\<close>)\<close>

subsection \<open>JSON values\<close>

text \<open>
  What \<^verbatim>\<open>request.json\<close> delivers and what the dictionary \<^verbatim>\<open>wrapper\<close> holds. An object keeps its
  members in insertion order, as a Python \<^verbatim>\<open>dict\<close> does. Numbers are the integers.
\<close>

datatype json =
    JNull
  | JBool bool
  | JInt int
  | JStr string
  | JArr "json list"
  | JObj "(string \<times> json) list"

text \<open>The truth value of a value in \<^verbatim>\<open>if wrapper['playing']:\<close>.\<close>

fun truthy :: "json \<Rightarrow> bool" where
  "truthy JNull = False"
| "truthy (JBool b) = b"
| "truthy (JInt n) = (n \<noteq> 0)"
| "truthy (JStr s) = (s \<noteq> [])"
| "truthy (JArr xs) = (xs \<noteq> [])"
| "truthy (JObj kvs) = (kvs \<noteq> [])"

text \<open>
  \<^verbatim>\<open>json.loads(json.dumps(v))\<close> builds a fresh value with the content of \<open>v\<close>. Values here have
  no identity, so the copy is the value.
\<close>

definition json_copy :: "json \<Rightarrow> json" where
  "json_copy v = v"

text \<open>
  \<^verbatim>\<open>for action in v\<close>: the elements of a list, the keys of an object, the characters of a
  string; \<^verbatim>\<open>TypeError\<close> on a value that is not iterable.
\<close>

fun iterate :: "json \<Rightarrow> py_error + json list" where
  "iterate (JArr xs) = Inr xs"
| "iterate (JObj kvs) = Inr (map (\<lambda>kv. JStr (fst kv)) kvs)"
| "iterate (JStr s) = Inr (map (\<lambda>c. JStr [c]) s)"
| "iterate v = Inl TypeError"

text \<open>\<^verbatim>\<open>v.append(x)\<close>: only a list has the method.\<close>

fun json_append :: "json \<Rightarrow> json \<Rightarrow> py_error + json" where
  "json_append (JArr xs) x = Inr (JArr (xs @ [x]))"
| "json_append v x = Inl AttributeError"

subsection \<open>The shared dictionary \<^verbatim>\<open>wrapper\<close> and the endpoints\<close>

text \<open>
  The key \<^verbatim>\<open>input_list\<close> is absent (\<open>None\<close>) until something stores it. The idle packet
  \<^verbatim>\<open>DIRECT_INPUT_IDLE_PACKET\<close> comes from \<^verbatim>\<open>nxbt.controller.input\<close> and is a parameter.
\<close>

record wrapper =
  packet :: json
  recording :: json
  playing :: json
  input_list :: "json option"

definition initial_wrapper :: "json \<Rightarrow> wrapper" where
  "initial_wrapper DIRECT_INPUT_IDLE_PACKET =
     \<lparr>packet = json_copy DIRECT_INPUT_IDLE_PACKET, recording = JBool False,
      playing = JBool False, input_list = None\<rparr>"

datatype response = Json json | Text string

type_synonym endpoint = "wrapper \<Rightarrow> (py_error + response) \<times> wrapper"

definition get_gamepad :: "json \<Rightarrow> endpoint" where
  "get_gamepad body w =
     (Inr (Json (JObj [(''message'', JStr ''Received your POST request!'')])), w\<lparr>packet := body\<rparr>)"

definition get_recording :: endpoint where
  "get_recording w = (Inr (Json (recording w)), w)"

definition set_recording :: "json \<Rightarrow> endpoint" where
  "set_recording body w = (Inr (Text ''ok''), w\<lparr>recording := body\<rparr>)"

definition get_playing :: endpoint where
  "get_playing w = (Inr (Json (playing w)), w)"

definition set_playing :: "json \<Rightarrow> endpoint" where
  "set_playing body w = (Inr (Text ''ok''), w\<lparr>playing := body\<rparr>)"

definition get_input_list :: endpoint where
  "get_input_list w =
     (case input_list w of
        None \<Rightarrow> (Inl (KeyError ''input_list''), w)
      | Some v \<Rightarrow> (Inr (Json v), w))"

definition set_input_list :: "json \<Rightarrow> endpoint" where
  "set_input_list body w = (Inr (Text ''ok''), w\<lparr>input_list := Some body\<rparr>)"

definition clear_input_list :: endpoint where
  "clear_input_list w = (Inr (Text ''ok''), w\<lparr>input_list := Some (JArr [])\<rparr>)"

datatype request =
    Gamepad json
  | GetRecording
  | SetRecording json
  | GetPlaying
  | SetPlaying json
  | GetInputList
  | SetInputList json
  | ClearInputList

fun handle :: "request \<Rightarrow> endpoint" where
  "handle (Gamepad body) = get_gamepad body"
| "handle GetRecording = get_recording"
| "handle (SetRecording body) = set_recording body"
| "handle GetPlaying = get_playing"
| "handle (SetPlaying body) = set_playing body"
| "handle GetInputList = get_input_list"
| "handle (SetInputList body) = set_input_list body"
| "handle ClearInputList = clear_input_list"

subsection \<open>\<^verbatim>\<open>main_thread\<close>\<close>

text \<open>
  What one iteration of the loop does, in order: \<open>Transmit v\<close> is the assignment
  \<^verbatim>\<open>server.state['direct_input'] = v\<close>, \<open>Append v\<close> the call
  \<^verbatim>\<open>wrapper['input_list'].append(v)\<close>, \<open>Sleep n\<close> a \<^verbatim>\<open>time.sleep\<close> of \<open>n\<close> milliseconds.
  The calls to \<^verbatim>\<open>print\<close> are left out.
\<close>

datatype event = Transmit json | Append json | Sleep nat

text \<open>The playback loop \<^verbatim>\<open>for action in wrapper['input_list']\<close>.\<close>

fun play :: "json list \<Rightarrow> event list" where
  "play [] = []"
| "play (action # rest) = Transmit action # Sleep 1 # play rest"

text \<open>
  One iteration of \<^verbatim>\<open>while True\<close> after the connection: the events, the exception that ended
  the thread if one was raised, and the dictionary afterwards.
\<close>

definition tick :: "wrapper \<Rightarrow> event list \<times> py_error option \<times> wrapper" where
  "tick w =
     (if truthy (playing w) then
        (case input_list w of
           None \<Rightarrow> ([], Some (KeyError ''input_list''), w)
         | Some l \<Rightarrow>
             (case iterate l of
                Inl e \<Rightarrow> ([], Some e, w)
              | Inr actions \<Rightarrow> (play actions @ [Sleep 5000], None, w)))
      else
        (let sent = [Transmit (json_copy (packet w))] in
         if truthy (recording w) then
           (case input_list w of
              None \<Rightarrow> (sent, Some (KeyError ''input_list''), w)
            | Some l \<Rightarrow>
                (case json_append l (json_copy (packet w)) of
                   Inl e \<Rightarrow> (sent, Some e, w)
                 | Inr l' \<Rightarrow>
                     (sent @ [Append (json_copy (packet w)), Sleep 1], None,
                      w\<lparr>input_list := Some l'\<rparr>)))
         else (sent @ [Sleep 1], None, w)))"

text \<open>
  The thread is first in the loop that waits for the connection, then in the transmission
  loop, and is gone once an exception was raised. The system is the dictionary, the
  thread's place and everything the thread did so far.
\<close>

datatype phase = Connecting | Transmitting | Crashed py_error

record system =
  wrap :: wrapper
  phase :: phase
  trace :: "event list"

definition initial_system :: "json \<Rightarrow> system" where
  "initial_system DIRECT_INPUT_IDLE_PACKET =
     \<lparr>wrap = initial_wrapper DIRECT_INPUT_IDLE_PACKET, phase = Connecting, trace = []\<rparr>"

text \<open>
  One iteration of the loop the thread is in; \<open>server_state\<close> is the value of
  \<^verbatim>\<open>server.state['state']\<close> that the waiting loop reads. Leaving the waiting loop stores the
  empty \<^verbatim>\<open>input_list\<close>.
\<close>

definition main_thread_step :: "string \<Rightarrow> system \<Rightarrow> system" where
  "main_thread_step server_state s =
     (case phase s of
        Connecting \<Rightarrow>
          if ''connected'' = server_state
          then s\<lparr>wrap := (wrap s)\<lparr>input_list := Some (JArr [])\<rparr>, phase := Transmitting\<rparr>
          else s\<lparr>trace := trace s @ [Sleep 1000]\<rparr>
      | Transmitting \<Rightarrow>
          (case tick (wrap s) of
             (evs, err, w') \<Rightarrow>
               s\<lparr>wrap := w', trace := trace s @ evs,
                 phase := (case err of None \<Rightarrow> Transmitting | Some e \<Rightarrow> Crashed e)\<rparr>)
      | Crashed e \<Rightarrow> s)"

text \<open>
  The Flask threads and the main thread share the dictionary; a schedule is the order in
  which requests are handled and loop iterations run. A request and an iteration are each
  one step of a schedule.
\<close>

datatype step = Request request | MainThread string

fun system_step :: "step \<Rightarrow> system \<Rightarrow> system" where
  "system_step (Request r) s = s\<lparr>wrap := snd (handle r (wrap s))\<rparr>"
| "system_step (MainThread server_state) s = main_thread_step server_state s"

fun run :: "step list \<Rightarrow> system \<Rightarrow> system" where
  "run [] s = s"
| "run (st # rest) s = run rest (system_step st s)"

text \<open>Running \<open>n\<close> iterations of the transmission loop in a row.\<close>

fun ticks :: "nat \<Rightarrow> wrapper \<Rightarrow> event list \<times> py_error option \<times> wrapper" where
  "ticks 0 w = ([], None, w)"
| "ticks (Suc n) w =
     (case tick w of
        (evs, Some e, w1) \<Rightarrow> (evs, Some e, w1)
      | (evs, None, w1) \<Rightarrow>
          (case ticks n w1 of (evs2, err, w2) \<Rightarrow> (evs @ evs2, err, w2)))"

fun transmitted :: "event list \<Rightarrow> json list" where
  "transmitted [] = []"
| "transmitted (Transmit v # evs) = v # transmitted evs"
| "transmitted (e # evs) = transmitted evs"

fun appended :: "event list \<Rightarrow> json list" where
  "appended [] = []"
| "appended (Append v # evs) = v # appended evs"
| "appended (e # evs) = appended evs"

section \<open>Predicates and inputs used in the statements\<close>

text \<open>A host on which no command writes anything but newlines to stderr.\<close>

abbreviation quiet :: "host \<Rightarrow> bool" where
  "quiet h \<equiv> (\<forall>hist c. filter (\<lambda>x. x \<noteq> CHR 0x0A) (stderr (respond h hist c)) = [])"

text \<open>
  The address string \<^verbatim>\<open>O0:O1:O2:O3:O4:O5\<close> of a list of octets, and the two commands
  expected for one adapter: the vendor command with the octets from the last to the
  first, then the reset of the adapter whose id ends the path.
\<close>

fun join_colon :: "string list \<Rightarrow> string" where
  "join_colon [] = []"
| "join_colon [x] = x"
| "join_colon (x # y # ys) = x @ CHR '':'' # join_colon (y # ys)"

definition spoof_commands :: "string \<Rightarrow> string list \<Rightarrow> string list list" where
  "spoof_commands adapter_path m =
     [[''hcitool'', ''-i'', last (split_on CHR ''/'' adapter_path), ''cmd'', ''0x3f'', ''0x001'',
       ''0x'' @ m ! 5, ''0x'' @ m ! 4, ''0x'' @ m ! 3, ''0x'' @ m ! 2, ''0x'' @ m ! 1, ''0x'' @ m ! 0],
      [''hciconfig'', last (split_on CHR ''/'' adapter_path), ''reset'']]"

text \<open>The steps of a schedule that store the key \<^verbatim>\<open>input_list\<close>.\<close>

fun creates_input_list :: "step \<Rightarrow> bool" where
  "creates_input_list (Request (SetInputList body)) = True"
| "creates_input_list (Request ClearInputList) = True"
| "creates_input_list (Request r) = False"
| "creates_input_list (MainThread server_state) = (server_state = ''connected'')"

text \<open>
  The steps of a recording session: loop iterations, new packets from the gamepad endpoint
  and reads; no request that changes a flag or replaces the recorded sequence.
\<close>

fun recording_session_step :: "step \<Rightarrow> bool" where
  "recording_session_step (Request (Gamepad body)) = True"
| "recording_session_step (Request GetRecording) = True"
| "recording_session_step (Request GetPlaying) = True"
| "recording_session_step (Request GetInputList) = True"
| "recording_session_step (Request r) = False"
| "recording_session_step (MainThread server_state) = True"

text \<open>
  The invariant of a recording session that started in \<open>s0\<close> with the recorded sequence
  \<open>xs\<close>: what was appended since follows \<open>xs\<close> in the recorded sequence.
\<close>

definition recording_inv :: "json list \<Rightarrow> system \<Rightarrow> system \<Rightarrow> bool" where
  "recording_inv xs s0 s =
     (\<exists>rec. phase s = Transmitting \<and> truthy (recording (wrap s)) \<and>
        \<not> truthy (playing (wrap s)) \<and>
        input_list (wrap s) = Some (JArr (xs @ rec)) \<and>
        appended (trace s) = appended (trace s0) @ rec)"

subsection \<open>Concrete inputs\<close>

text \<open>
  A bus with one adapter and two connected devices, a console and a headset; and a bus on
  which the Bluetooth service exposes no object at all.
\<close>

definition example_bus :: bus where
  "example_bus service =
     (if service = ''org.bluez'' then
        [(''/org/bluez/hci0'',
            [(''org.bluez.Adapter1'', [(''Address'', DStr ''AA:BB:CC:DD:EE:FF'')])]),
         (''/org/bluez/hci0/dev_98_B6_E9_E6_88_7F'',
            [(''org.bluez.Device1'',
                [(''Address'', DStr ''98:B6:E9:E6:88:7F''), (''Alias'', DStr ''Nintendo Switch''),
                 (''Connected'', DBool True)])]),
         (''/org/bluez/hci0/dev_11_22_33_44_55_66'',
            [(''org.bluez.Device1'',
                [(''Address'', DStr ''11:22:33:44:55:66''), (''Alias'', DStr ''Headset''),
                 (''Connected'', DBool True)])])]
      else [])"

definition example_bluez :: bluez where
  "example_bluez =
     \<lparr>bluez_bus = example_bus, device_path = ''/org/bluez/hci0'', device_id = ''hci0''\<rparr>"

definition no_adapter_bus :: bus where
  "no_adapter_bus service = []"

text \<open>
  Hosts: one with the service file and no override, on which every command succeeds
  silently; the same with the override in place; the same with a regular file where the
  override's directory should be; one whose commands exit with code 1 and an empty
  stderr; one whose commands exit with code 0 and a warning on stderr; one whose commands
  write a single newline to stderr; one on which no program is found.
\<close>

definition service_tree :: fs_node where
  "service_tree =
     Dir [(''systemd'', Dir [(''system'', Dir [(''bluetooth.service'',
        File (''[Service]'' @ [CHR 0x0A] @
              ''ExecStart=/usr/libexec/bluetooth/bluetoothd'' @ [CHR 0x0A]))])])]"

definition plain_host :: host where
  "plain_host =
     \<lparr>root = Dir [(''lib'', service_tree),
                  (''run'', Dir [(''systemd'', Dir [(''system'', Dir [])])])],
      which = (\<lambda>tool. Some (''/usr/bin/'' @ tool)),
      respond = (\<lambda>hist c. \<lparr>returncode = 0, stdout = [], stderr = []\<rparr>),
      commands = [], slept_ms = 0\<rparr>"

definition override_host :: host where
  "override_host =
     plain_host\<lparr>root :=
       Dir [(''lib'', service_tree),
            (''run'', Dir [(''systemd'', Dir [(''system'',
               Dir [(''bluetooth.service.d'', Dir [(''nxbt.conf'', File ''[Service]'')])])])])]\<rparr>"

definition blocked_host :: host where
  "blocked_host =
     plain_host\<lparr>root :=
       Dir [(''lib'', service_tree),
            (''run'', Dir [(''systemd'', Dir [(''system'',
               Dir [(''bluetooth.service.d'', File [])])])])]\<rparr>"




definition bare_host :: host where
  "bare_host = plain_host\<lparr>which := (\<lambda>tool. None)\<rparr>"

text \<open>
  Dictionaries: during playback of two recorded packets with recording requested as well;
  while recording only; during playback of an empty recorded sequence.
\<close>

definition both_flags_wrapper :: wrapper where
  "both_flags_wrapper =
     \<lparr>packet = JInt 7, recording = JBool True, playing = JBool True,
      input_list = Some (JArr [JInt 1, JInt 2])\<rparr>"

definition recording_wrapper :: wrapper where
  "recording_wrapper =
     \<lparr>packet = JInt 7, recording = JBool True, playing = JBool False,
      input_list = Some (JArr [])\<rparr>"

definition empty_playback_wrapper :: wrapper where
  "empty_playback_wrapper =
     \<lparr>packet = JInt 7, recording = JBool False, playing = JBool True,
      input_list = Some (JArr [])\<rparr>"

text \<open>A system at the start of a recording session, and a session of three iterations.\<close>

definition recording_system :: system where
  "recording_system = \<lparr>wrap = recording_wrapper, phase = Transmitting, trace = []\<rparr>"

definition example_session :: "step list" where
  "example_session =
     [Request (Gamepad (JInt 1)), MainThread ''connected'', MainThread ''connected'',
      Request (Gamepad (JInt 2)), Request GetInputList, MainThread ''connected'']"

text \<open>Requests and waiting iterations before the console has connected.\<close>

definition early_schedule :: "step list" where
  "early_schedule =
     [MainThread ''initializing'', Request (Gamepad (JInt 1)), Request (SetRecording (JBool True)),
      MainThread ''connecting'', Request (SetPlaying (JBool True)), Request GetPlaying]"

section \<open>Device enumeration\<close>

lemma find_connected_devices_loop_filter:
  "find_connected_devices_loop b (Some f) paths acc = find_connected_devices_loop b None paths acc"
  by (induction paths arbitrary: acc) (auto split: sum.splits)

text \<open>
  Whatever the filter, \<^verbatim>\<open>find_connected_devices\<close> returns what it returns without one: both
  branches of its inner conditional append the path.
\<close>

lemma find_connected_devices_filter_irrelevant:
  "find_connected_devices self (Some f) = find_connected_devices self None"
  by (simp add: find_connected_devices_def find_connected_devices_loop_filter)

text \<open>
  The sibling \<^verbatim>\<open>find_devices_by_alias\<close> does narrow by alias: on the example bus it finds the
  console only, and finds it by a lower-case alias.
\<close>

lemma find_devices_by_alias_example:
  "find_devices_by_alias example_bus ''nintendo switch'' =
     Inr ([''98:B6:E9:E6:88:7F''], [''/org/bluez/hci0/dev_98_B6_E9_E6_88_7F''])"
  by (simp add: find_devices_by_alias_def find_objects_def example_bus_def SERVICE_NAME_def
      DEVICE_INTERFACE_def Get_def upper_def char_upper_def)

text \<open>
  C1. With the alias filter \<^verbatim>\<open>Nintendo Switch\<close> the result should hold the console's path
  only. The code returns the path of every connected device: the headset, whose alias
  does not match, is in the result.
\<close>

theorem find_connected_devices_keeps_unmatched:
  "find_connected_devices example_bluez (Some ''Nintendo Switch'') =
     Inr [''/org/bluez/hci0/dev_98_B6_E9_E6_88_7F'', ''/org/bluez/hci0/dev_11_22_33_44_55_66'']"
  by (simp add: find_connected_devices_def find_objects_def example_bluez_def example_bus_def
      SERVICE_NAME_def DEVICE_INTERFACE_def Get_def upper_def char_upper_def)

section \<open>Adapter selection\<close>

lemma find_object_path_loop_absent:
  "\<forall>obj \<in> set objs. map_of (snd obj) interface_name = None \<Longrightarrow>
   find_object_path_loop objs interface_name object_name = Inr None"
  by (induction objs) auto

text \<open>
  Without a path (\<^verbatim>\<open>None\<close>) the constructor searches, and raises when no object of the
  service has the adapter interface.
\<close>

lemma BlueZ_init_search_fails:
  assumes "\<forall>obj \<in> set (b SERVICE_NAME). map_of (snd obj) ADAPTER_INTERFACE = None"
  shows "BlueZ_init b None = Inl (Exception ''Unable to find a bluetooth adapter'')"
  using find_object_path_loop_absent [OF assms, of None]
  by (simp add: BlueZ_init_def find_object_path_def)

text \<open>With a path the constructor never raises, whatever the bus holds.\<close>

lemma BlueZ_init_with_path:
  "BlueZ_init b (Some p) =
     Inr \<lparr>bluez_bus = b, device_path = p, device_id = last (split_on CHR ''/'' p)\<rparr>"
  by (simp add: BlueZ_init_def)

text \<open>
  C8. On a bus without any adapter, construction with the explicit path
  \<^verbatim>\<open>/org/bluez/hci0\<close> should raise the adapter-not-found error. The code returns an object
  for that path: the path given is never looked up.
\<close>

theorem BlueZ_init_explicit_path_unchecked:
  "BlueZ_init no_adapter_bus (Some ''/org/bluez/hci0'') =
     Inr \<lparr>bluez_bus = no_adapter_bus, device_path = ''/org/bluez/hci0'', device_id = ''hci0''\<rparr>"
  by (simp add: BlueZ_init_def)

section \<open>The command runner\<close>

lemma newline_only_valid:
  "filter (\<lambda>c. c \<noteq> CHR 0x0A) bs = [] \<Longrightarrow> utf8_valid (map of_char bs)"
  by (induction bs) (auto split: if_splits)

lemma run_command_quiet:
  "which h program \<noteq> None \<Longrightarrow>
   filter (\<lambda>c. c \<noteq> CHR 0x0A) (stderr (respond h (commands h) (program # args))) = [] \<Longrightarrow>
   run_command (program # args) h =
     (Inr (respond h (commands h) (program # args)),
      h\<lparr>commands := commands h @ [program # args]\<rparr>)"
  using newline_only_valid [of "stderr (respond h (commands h) (program # args))"]
  by (auto simp: run_command_def subprocess_run_def decode_utf8_def Let_def)



text \<open>
  A command whose program is not found is the other way round: the runner raises
  \<^verbatim>\<open>FileNotFoundError\<close> although no process ran and nothing was written to stderr.
\<close>

lemma run_command_not_found:
  "which h program = None \<Longrightarrow> run_command (program # args) h = (Inl FileNotFoundError, h)"
  by (simp add: run_command_def subprocess_run_def)

lemma run_command_not_found_example:
  "run_command [''systemctl'', ''daemon-reload''] bare_host = (Inl FileNotFoundError, bare_host)"
  by (simp add: run_command_not_found bare_host_def)



section \<open>Address spoofing\<close>

lemma split_on_not_Nil: "split_on sep s \<noteq> []"
  by (induction s) (auto split: list.splits)

lemma split_on_plain: "sep \<notin> set a \<Longrightarrow> split_on sep a = [a]"
  by (induction a) auto

lemma split_on_app:
  "sep \<notin> set a \<Longrightarrow> split_on sep (a @ sep # rest) = a # split_on sep rest"
  by (induction a) (auto simp: split_on_not_Nil split: list.splits)

lemma split_join_colon:
  "\<forall>x \<in> set m. CHR '':'' \<notin> set x \<Longrightarrow> m \<noteq> [] \<Longrightarrow> split_on CHR '':'' (join_colon m) = m"
  by (induction m rule: join_colon.induct) (simp_all add: split_on_plain split_on_app)

lemma run_command_on_quiet:
  "quiet h \<Longrightarrow> which h program \<noteq> None \<Longrightarrow>
   run_command (program # args) h =
     (Inr (respond h (commands h) (program # args)),
      h\<lparr>commands := commands h @ [program # args]\<rparr>)"
  by (rule run_command_quiet) simp_all

lemma replace_mac_addresses_loop_quiet:
  assumes "quiet h" and "which h ''hcitool'' \<noteq> None" and "which h ''hciconfig'' \<noteq> None"
    and "length macs = length adapter_paths"
    and "\<forall>m \<in> set macs. length m = 6 \<and> (\<forall>x \<in> set m. CHR '':'' \<notin> set x)"
    and "\<forall>i \<in> set idx. i < length adapter_paths"
  shows "replace_mac_addresses_loop adapter_paths (map join_colon macs) idx h =
           (Inr (), h\<lparr>commands := commands h @
              concat (map (\<lambda>i. spoof_commands (adapter_paths ! i) (macs ! i)) idx)\<rparr>)"
  using assms(1,2,3,6)
proof (induction idx arbitrary: h)
  case Nil
  then show ?case by simp
next
  case (Cons i idx)
  have i: "i < length macs"
    using Cons.prems(4) assms(4) by simp
  then have m: "length (macs ! i) = 6" "\<forall>x \<in> set (macs ! i). CHR '':'' \<notin> set x"
    using assms(5) by (auto dest: nth_mem)
  then have sp: "split_on CHR '':'' (join_colon (macs ! i)) = macs ! i"
    by (intro split_join_colon) auto
  let ?id = "last (split_on CHR ''/'' (adapter_paths ! i))"
  let ?c1 = "[''hcitool'', ''-i'', ?id, ''cmd'', ''0x3f'', ''0x001'',
              ''0x'' @ (macs ! i) ! 5, ''0x'' @ (macs ! i) ! 4, ''0x'' @ (macs ! i) ! 3,
              ''0x'' @ (macs ! i) ! 2, ''0x'' @ (macs ! i) ! 1, ''0x'' @ (macs ! i) ! 0]"
  let ?c2 = "[''hciconfig'', ?id, ''reset'']"
  let ?h1 = "h\<lparr>commands := commands h @ [?c1]\<rparr>"
  let ?h2 = "?h1\<lparr>commands := commands ?h1 @ [?c2]\<rparr>"
  have r1: "run_command ?c1 h = (Inr (respond h (commands h) ?c1), ?h1)"
    using Cons.prems(1,2) by (rule run_command_on_quiet)
  have r2: "run_command ?c2 ?h1 = (Inr (respond ?h1 (commands ?h1) ?c2), ?h2)"
    using Cons.prems(1,3) by (intro run_command_on_quiet) simp_all
  have ih: "replace_mac_addresses_loop adapter_paths (map join_colon macs) idx ?h2 =
      (Inr (), ?h2\<lparr>commands := commands ?h2 @
              concat (map (\<lambda>i. spoof_commands (adapter_paths ! i) (macs ! i)) idx)\<rparr>)"
    using Cons.prems by (intro Cons.IH) simp_all
  have "replace_mac_addresses_loop adapter_paths (map join_colon macs) (i # idx) h =
        replace_mac_addresses_loop adapter_paths (map join_colon macs) idx ?h2"
    using i m(1) r1 r2 by (simp add: sp Let_def)
  also note ih
  finally show ?case by (simp add: spoof_commands_def)
qed

lemma map_nth_pair:
  "length ys = length xs \<Longrightarrow> map (\<lambda>i. f (xs ! i) (ys ! i)) [0..<length xs] = map2 f xs ys"
  by (rule nth_equalityI) simp_all

text \<open>
  C2. Given adapter paths and as many addresses \<^verbatim>\<open>O0:O1:O2:O3:O4:O5\<close> of six octets, on a
  host that has both tools and whose commands write nothing to stderr,
  \<^verbatim>\<open>replace_mac_addresses\<close> returns normally having run, for each adapter in turn, the
  vendor command \<^verbatim>\<open>hcitool -i <id> cmd 0x3f 0x001 0xO5 0xO4 0xO3 0xO2 0xO1 0xO0\<close> and right
  after it \<^verbatim>\<open>hciconfig <id> reset\<close>, and nothing else.
\<close>

theorem replace_mac_addresses_reversed_then_reset:
  assumes "which h ''hcitool'' \<noteq> None" and "which h ''hciconfig'' \<noteq> None"
    and "quiet h" and "length macs = length adapter_paths"
    and "\<forall>m \<in> set macs. length m = 6 \<and> (\<forall>x \<in> set m. CHR '':'' \<notin> set x)"
  shows "replace_mac_addresses adapter_paths (map join_colon macs) h =
           (Inr (), h\<lparr>commands := commands h @ concat (map2 spoof_commands adapter_paths macs)\<rparr>)"
proof -
  have "replace_mac_addresses adapter_paths (map join_colon macs) h =
        replace_mac_addresses_loop adapter_paths (map join_colon macs) [0..<length adapter_paths] h"
    using assms(1,2,4) by (auto simp: replace_mac_addresses_def)
  also have "\<dots> = (Inr (), h\<lparr>commands := commands h @
      concat (map (\<lambda>i. spoof_commands (adapter_paths ! i) (macs ! i)) [0..<length adapter_paths])\<rparr>)"
    using assms by (intro replace_mac_addresses_loop_quiet) simp_all
  finally show ?thesis
    using assms(4) by (simp add: map_nth_pair)
qed

theorem replace_mac_addresses_reversed_then_reset_witness:
  "replace_mac_addresses [''/org/bluez/hci0''] [''11:22:33:44:55:66''] plain_host =
     (Inr (), plain_host\<lparr>commands :=
        [[''hcitool'', ''-i'', ''hci0'', ''cmd'', ''0x3f'', ''0x001'',
          ''0x66'', ''0x55'', ''0x44'', ''0x33'', ''0x22'', ''0x11''],
         [''hciconfig'', ''hci0'', ''reset'']]\<rparr>)"
  using replace_mac_addresses_reversed_then_reset
    [of plain_host "[[''11'', ''22'', ''33'', ''44'', ''55'', ''66'']]" "[''/org/bluez/hci0'']"]
  by (simp add: plain_host_def spoof_commands_def)

text \<open>
  Without the assumption on stderr the loop may stop at a command that wrote to stderr.
  What it ran until then is still a beginning of the same sequence of commands.
\<close>

lemma run_command_commands:
  "which h program \<noteq> None \<Longrightarrow>
   commands (snd (run_command (program # args) h)) = commands h @ [program # args] \<and>
   which (snd (run_command (program # args) h)) = which h"
  by (auto simp: run_command_def subprocess_run_def Let_def split: sum.splits)

lemma replace_mac_addresses_loop_prefix:
  assumes "length macs = length adapter_paths"
    and "\<forall>m \<in> set macs. length m = 6 \<and> (\<forall>x \<in> set m. CHR '':'' \<notin> set x)"
    and "\<forall>i \<in> set idx. i < length adapter_paths"
    and "which h ''hcitool'' \<noteq> None" and "which h ''hciconfig'' \<noteq> None"
  shows "\<exists>k. commands (snd (replace_mac_addresses_loop adapter_paths (map join_colon macs) idx h)) =
           commands h @ take k (concat (map (\<lambda>i. spoof_commands (adapter_paths ! i) (macs ! i)) idx))"
  using assms(3,4,5)
proof (induction idx arbitrary: h)
  case Nil
  then show ?case by simp
next
  case (Cons i idx)
  have i: "i < length macs"
    using Cons.prems(1) assms(1) by simp
  then have m: "length (macs ! i) = 6" "\<forall>x \<in> set (macs ! i). CHR '':'' \<notin> set x"
    using assms(2) by (auto dest: nth_mem)
  then have sp: "split_on CHR '':'' (join_colon (macs ! i)) = macs ! i"
    by (intro split_join_colon) auto
  let ?id = "last (split_on CHR ''/'' (adapter_paths ! i))"
  let ?a1 = "[''-i'', ?id, ''cmd'', ''0x3f'', ''0x001'',
              ''0x'' @ (macs ! i) ! 5, ''0x'' @ (macs ! i) ! 4, ''0x'' @ (macs ! i) ! 3,
              ''0x'' @ (macs ! i) ! 2, ''0x'' @ (macs ! i) ! 1, ''0x'' @ (macs ! i) ! 0]"
  let ?c1 = "''hcitool'' # ?a1"
  let ?c2 = "[''hciconfig'', ?id, ''reset'']"
  let ?rest = "concat (map (\<lambda>i. spoof_commands (adapter_paths ! i) (macs ! i)) idx)"
  let ?loop = "replace_mac_addresses_loop adapter_paths (map join_colon macs)"
  have all: "concat (map (\<lambda>i. spoof_commands (adapter_paths ! i) (macs ! i)) (i # idx)) =
             ?c1 # ?c2 # ?rest"
    by (simp add: spoof_commands_def)
  obtain r1 h1 where r1: "run_command ?c1 h = (r1, h1)"
    by (cases "run_command ?c1 h")
  then have h1: "commands h1 = commands h @ [?c1]" "which h1 = which h"
    using run_command_commands [OF Cons.prems(2), of ?a1] by simp_all
  obtain r2 h2 where r2: "run_command ?c2 h1 = (r2, h2)"
    by (cases "run_command ?c2 h1")
  have "which h1 ''hciconfig'' \<noteq> None"
    using h1(2) Cons.prems(3) by simp
  then have h2: "commands h2 = commands h @ [?c1, ?c2]" "which h2 = which h"
    using run_command_commands [of h1 "''hciconfig''" "[?id, ''reset'']"] r2 h1 by simp_all
  show ?case
  proof (cases r1)
    case (Inl e)
    then have "commands (snd (?loop (i # idx) h)) = commands h @ take 1 (?c1 # ?c2 # ?rest)"
      using i m(1) r1 h1 by (simp add: sp Let_def)
    then show ?thesis unfolding all by blast
  next
    case c1ok: (Inr v1)
    show ?thesis
    proof (cases r2)
      case (Inl e)
      then have "commands (snd (?loop (i # idx) h)) = commands h @ take 2 (?c1 # ?c2 # ?rest)"
        using i m(1) r1 r2 h2 c1ok by (simp add: sp Let_def numeral_2_eq_2)
      then show ?thesis unfolding all by blast
    next
      case (Inr v2)
      from Cons.IH [of h2] Cons.prems h2(2) obtain k where
        k: "commands (snd (?loop idx h2)) = commands h2 @ take k ?rest"
        by auto
      have "?loop (i # idx) h = ?loop idx h2"
        using i m(1) r1 r2 c1ok Inr by (simp add: sp Let_def)
      then have "commands (snd (?loop (i # idx) h)) =
                 commands h @ take (Suc (Suc k)) (?c1 # ?c2 # ?rest)"
        using k h2 by simp
      then show ?thesis unfolding all by blast
    qed
  qed
qed

section \<open>The service override\<close>

lemma components_override_path:
  "components override_path =
     [''run'', ''systemd'', ''system'', ''bluetooth.service.d'', ''nxbt.conf'']"
  by (simp add: components_def override_path_def override_dir_def)

lemma components_override_dir:
  "components override_dir = [''run'', ''systemd'', ''system'', ''bluetooth.service.d'']"
  by (simp add: components_def override_dir_def)

lemma components_service_path:
  "components service_path = [''lib'', ''systemd'', ''system'', ''bluetooth.service'']"
  by (simp add: components_def service_path_def)

text \<open>Where the walk to a path fails, \<^verbatim>\<open>os.remove\<close> fails in the same way.\<close>

lemma remove_lookup_error:
  "xs \<noteq> [] \<Longrightarrow> lookup n xs = Inl e \<Longrightarrow> remove n xs = Inl e"
  by (induction n xs rule: remove.induct) (auto split: option.splits fs_node.splits sum.splits)

text \<open>
  C5, as stated: \<^verbatim>\<open>toggle_clean_bluez(False)\<close> returns whenever the override file is absent.
  On a host where a regular file stands in the place of the override's directory there
  is no override file, and the call does not return: \<^verbatim>\<open>os.remove\<close> raises
  \<^verbatim>\<open>NotADirectoryError\<close>, which the \<^verbatim>\<open>except FileNotFoundError\<close> does not catch.
\<close>

theorem toggle_clean_bluez_blocked_counterexample:
  "lookup (root blocked_host) (components override_path) = Inl NotADirectoryError \<and>
   toggle_clean_bluez False blocked_host = (Inl NotADirectoryError, blocked_host)"
  by (simp add: toggle_clean_bluez_def components_override_path blocked_host_def plain_host_def)

text \<open>
  C5, amended. When the override is a regular file, \<^verbatim>\<open>toggle_clean_bluez(True)\<close> returns
  normally and leaves the host as it was: no file written, no command run. When the walk
  to the override's path finds a name missing, \<^verbatim>\<open>toggle_clean_bluez(False)\<close> does the same.
  When the walk meets a regular file on the way, \<^verbatim>\<open>toggle_clean_bluez(False)\<close> raises
  \<^verbatim>\<open>NotADirectoryError\<close>, and again the host is as it was: the service is not restarted.
\<close>

theorem toggle_clean_bluez_matching_no_restart:
  "(lookup (root h) (components override_path) = Inr (File c) \<longrightarrow>
      toggle_clean_bluez True h = (Inr (), h)) \<and>
   (lookup (root h) (components override_path) = Inl FileNotFoundError \<longrightarrow>
      toggle_clean_bluez False h = (Inr (), h)) \<and>
   (lookup (root h) (components override_path) = Inl NotADirectoryError \<longrightarrow>
      toggle_clean_bluez False h = (Inl NotADirectoryError, h))"
  using remove_lookup_error [of "components override_path" "root h"]
  by (auto simp: toggle_clean_bluez_def components_override_path)

theorem toggle_clean_bluez_matching_no_restart_witness:
  "lookup (root override_host) (components override_path) = Inr (File ''[Service]'') \<and>
   toggle_clean_bluez True override_host = (Inr (), override_host) \<and>
   lookup (root plain_host) (components override_path) = Inl FileNotFoundError \<and>
   toggle_clean_bluez False plain_host = (Inr (), plain_host) \<and>
   lookup (root blocked_host) (components override_path) = Inl NotADirectoryError \<and>
   toggle_clean_bluez False blocked_host = (Inl NotADirectoryError, blocked_host)"
  using toggle_clean_bluez_matching_no_restart [of override_host "''[Service]''"]
    toggle_clean_bluez_matching_no_restart [of plain_host]
    toggle_clean_bluez_matching_no_restart [of blocked_host]
  by (simp add: components_override_path override_host_def plain_host_def blocked_host_def)

text \<open>
  The other cases do restart the service: on a quiet host that has \<^verbatim>\<open>systemctl\<close> the two
  commands are run.
\<close>

lemma restart_bluetooth_quiet:
  "quiet h \<Longrightarrow> which h ''systemctl'' \<noteq> None \<Longrightarrow> restart_bluetooth h =
     (Inr (), h\<lparr>commands := commands h @
                 [[''systemctl'', ''daemon-reload''], [''systemctl'', ''restart'', ''bluetooth'']],
               slept_ms := slept_ms h + 500\<rparr>)"
  by (simp add: restart_bluetooth_def run_command_quiet)

lemma toggle_clean_bluez_removes_and_restarts:
  "toggle_clean_bluez False override_host =
     (Inr (), plain_host\<lparr>root :=
         Dir [(''lib'', service_tree),
              (''run'', Dir [(''systemd'', Dir [(''system'',
                 Dir [(''bluetooth.service.d'', Dir [])])])])],
       commands := [[''systemctl'', ''daemon-reload''], [''systemctl'', ''restart'', ''bluetooth'']],
       slept_ms := 500\<rparr>)"
  by (simp add: toggle_clean_bluez_def components_override_path restart_bluetooth_quiet
      override_host_def plain_host_def del_entry_def)

lemma toggle_clean_bluez_writes_and_restarts:
  "toggle_clean_bluez True plain_host =
     (Inr (), plain_host\<lparr>root :=
         Dir [(''lib'', service_tree),
              (''run'', Dir [(''systemd'', Dir [(''system'',
                 Dir [(''bluetooth.service.d'', Dir [(''nxbt.conf'',
                   File (''[Service]'' @ [CHR 0x0A] @ ''ExecStart='' @ [CHR 0x0A] @
                     ''ExecStart=/usr/libexec/bluetooth/bluetoothd --compat --noplugin=*''))])])])])],
       commands := [[''systemctl'', ''daemon-reload''], [''systemctl'', ''restart'', ''bluetooth'']],
       slept_ms := 500\<rparr>)"
  by (simp add: toggle_clean_bluez_def components_override_path components_override_dir
      components_service_path restart_bluetooth_quiet plain_host_def service_tree_def
      file_lines_def startswith_def strip_def white_space_def Let_def)

text \<open>Without \<^verbatim>\<open>systemctl\<close> the override is written and the first command raises.\<close>

lemma toggle_clean_bluez_without_systemctl:
  "fst (toggle_clean_bluez True bare_host) = Inl FileNotFoundError"
  by (simp add: toggle_clean_bluez_def components_override_path components_override_dir
      components_service_path restart_bluetooth_def run_command_not_found bare_host_def
      plain_host_def service_tree_def file_lines_def startswith_def strip_def white_space_def
      Let_def)

text \<open>Calling \<^verbatim>\<open>toggle_clean_bluez(True)\<close> again after it succeeded changes nothing.\<close>

lemma run_command_root: "run_command c h = (r, h1) \<Longrightarrow> root h1 = root h"
  by (auto simp: run_command_def subprocess_run_def Let_def
      split: sum.splits if_splits list.splits)

lemma restart_bluetooth_root:
  assumes "restart_bluetooth h = (r, h2)"
  shows "root h2 = root h"
proof (cases "run_command [''systemctl'', ''daemon-reload''] h")
  case (Pair r1 h1)
  note p1 = Pair
  have f1: "root h1 = root h"
    using p1 by (rule run_command_root)
  show ?thesis
  proof (cases r1)
    case (Inl e)
    with assms p1 f1 show ?thesis by (simp add: restart_bluetooth_def)
  next
    case (Inr v)
    show ?thesis
    proof (cases "run_command [''systemctl'', ''restart'', ''bluetooth''] h1")
      case (Pair r2 h3)
      then have "root h3 = root h1" by (rule run_command_root)
      with assms p1 Inr Pair f1 show ?thesis
        by (cases r2) (auto simp: restart_bluetooth_def)
    qed
  qed
qed

lemma map_of_set_entry: "map_of (set_entry x n es) x = Some n"
  by (induction es) auto

lemma lookup_write_file:
  "write_file n xs content = Inr n' \<Longrightarrow> lookup n' xs = Inr (File content)"
  by (induction n xs content arbitrary: n' rule: write_file.induct)
    (auto simp: map_of_set_entry split: option.splits fs_node.splits sum.splits)

lemma toggle_clean_bluez_on_writes:
  assumes "toggle_clean_bluez True h = (Inr (), h1)"
    and "\<not> (\<exists>c. lookup (root h) (components override_path) = Inr (File c))"
  shows "\<exists>r1 r2 ov. write_file r1 (components override_path) ov = Inr r2 \<and>
           restart_bluetooth (h\<lparr>root := r2\<rparr>) = (Inr (), h1)"
proof -
  from assms obtain content where
    c: "lookup (root h) (components service_path) = Inr (File content)"
    by (auto simp: toggle_clean_bluez_def split: sum.splits fs_node.splits)
  from assms c obtain ex where e: "exec_start_loop (file_lines content) = Inr ex"
    by (auto simp: toggle_clean_bluez_def split: sum.splits fs_node.splits)
  from assms c e obtain r1 where
    m: "mkdir_parents (root h) (components override_dir) = Inr r1"
    by (auto simp: toggle_clean_bluez_def Let_def split: sum.splits fs_node.splits)
  from assms c e m show ?thesis
    by (auto simp: toggle_clean_bluez_def Let_def split: sum.splits fs_node.splits)
qed

lemma toggle_clean_bluez_twice:
  assumes "toggle_clean_bluez True h = (Inr (), h1)"
  shows "toggle_clean_bluez True h1 = (Inr (), h1)"
proof -
  have "\<exists>c. lookup (root h1) (components override_path) = Inr (File c)"
  proof (cases "\<exists>c. lookup (root h) (components override_path) = Inr (File c)")
    case True
    then have "toggle_clean_bluez True h = (Inr (), h)"
      by (auto simp: toggle_clean_bluez_def)
    with assms True show ?thesis by simp
  next
    case False
    with assms obtain r1 r2 ov where
      w: "write_file r1 (components override_path) ov = Inr r2"
      and r: "restart_bluetooth (h\<lparr>root := r2\<rparr>) = (Inr (), h1)"
      using toggle_clean_bluez_on_writes by blast
    from r have "root h1 = r2"
      using restart_bluetooth_root by fastforce
    with w show ?thesis
      using lookup_write_file by blast
  qed
  then show ?thesis by (auto simp: toggle_clean_bluez_def)
qed

section \<open>The recorded sequence and the transmission loop\<close>

lemma appended_play: "appended (play xs) = []"
  by (induction xs) auto

lemma transmitted_play: "transmitted (play xs) = xs"
  by (induction xs) auto

lemma appended_app: "appended (xs @ ys) = appended xs @ appended ys"
  by (induction xs rule: appended.induct) auto

lemma transmitted_app: "transmitted (xs @ ys) = transmitted xs @ transmitted ys"
  by (induction xs rule: transmitted.induct) auto

text \<open>
  C3, as stated: clearing while \<^verbatim>\<open>playing\<close> is true also sets \<^verbatim>\<open>playing\<close> to false. After the
  endpoint ran on a dictionary whose \<^verbatim>\<open>playing\<close> is true, \<^verbatim>\<open>playing\<close> is still true.
\<close>

theorem clear_input_list_playing_counterexample:
  "playing both_flags_wrapper = JBool True \<and>
   playing (snd (clear_input_list both_flags_wrapper)) = JBool True"
  by (simp add: clear_input_list_def both_flags_wrapper_def)

text \<open>
  C3, amended. \<^verbatim>\<open>clear_input_list\<close> answers \<^verbatim>\<open>ok\<close>, stores the empty list under \<^verbatim>\<open>input_list\<close>
  and changes nothing else: \<^verbatim>\<open>playing\<close>, \<^verbatim>\<open>recording\<close> and \<^verbatim>\<open>packet\<close> are as before.
\<close>

theorem clear_input_list_only_empties:
  "clear_input_list w = (Inr (Text ''ok''), w\<lparr>input_list := Some (JArr [])\<rparr>) \<and>
   input_list (snd (clear_input_list w)) = Some (JArr []) \<and>
   playing (snd (clear_input_list w)) = playing w \<and>
   recording (snd (clear_input_list w)) = recording w \<and>
   packet (snd (clear_input_list w)) = packet w"
  by (simp add: clear_input_list_def)

text \<open>
  C4. In an iteration that finds \<^verbatim>\<open>playing\<close> true nothing is appended and the dictionary is
  left as it was, whatever \<^verbatim>\<open>recording\<close> is; and an iteration that appends found \<^verbatim>\<open>playing\<close>
  false and transmitted the live packet only, nothing of the recorded sequence.
\<close>

theorem tick_playback_excludes_append:
  "(truthy (playing w) \<longrightarrow> appended (fst (tick w)) = [] \<and> snd (snd (tick w)) = w) \<and>
   (appended (fst (tick w)) \<noteq> [] \<longrightarrow>
      \<not> truthy (playing w) \<and> transmitted (fst (tick w)) = [json_copy (packet w)])"
  by (auto simp: tick_def Let_def appended_app appended_play split: option.splits sum.splits)

theorem tick_playback_excludes_append_witness:
  "truthy (playing both_flags_wrapper) \<and> truthy (recording both_flags_wrapper) \<and>
   appended (fst (tick both_flags_wrapper)) = [] \<and>
   snd (snd (tick both_flags_wrapper)) = both_flags_wrapper \<and>
   transmitted (fst (tick both_flags_wrapper)) = [JInt 1, JInt 2] \<and>
   appended (fst (tick recording_wrapper)) = [JInt 7] \<and>
   \<not> truthy (playing recording_wrapper) \<and>
   transmitted (fst (tick recording_wrapper)) = [JInt 7]"
  using tick_playback_excludes_append [of both_flags_wrapper]
    tick_playback_excludes_append [of recording_wrapper]
  by (simp add: tick_def both_flags_wrapper_def recording_wrapper_def json_copy_def)

text \<open>
  C7. While \<^verbatim>\<open>playing\<close> is true and the recorded sequence is the empty list, any number of
  iterations in a row raise nothing, transmit nothing and leave the dictionary as it
  was: each one only sleeps.
\<close>

theorem playback_of_empty_sequence_idles:
  assumes "truthy (playing w)" and "input_list w = Some (JArr [])"
  shows "ticks n w = (replicate n (Sleep 5000), None, w) \<and> transmitted (fst (ticks n w)) = []"
proof -
  have t: "tick w = ([Sleep 5000], None, w)"
    using assms by (simp add: tick_def)
  have "ticks n w = (replicate n (Sleep 5000), None, w)"
    by (induction n) (simp_all add: t)
  moreover have "transmitted (replicate n (Sleep 5000)) = []"
    by (induction n) simp_all
  ultimately show ?thesis by simp
qed

theorem playback_of_empty_sequence_idles_witness:
  "truthy (playing empty_playback_wrapper) \<and>
   input_list empty_playback_wrapper = Some (JArr []) \<and>
   ticks 3 empty_playback_wrapper =
     ([Sleep 5000, Sleep 5000, Sleep 5000], None, empty_playback_wrapper)"
  using playback_of_empty_sequence_idles [of empty_playback_wrapper 3]
  by (simp add: empty_playback_wrapper_def numeral_3_eq_3)

text \<open>Clearing the sequence during playback is such a case: the next pass idles.\<close>

lemma tick_after_clear_during_playback:
  "truthy (playing w) \<Longrightarrow> tick (snd (clear_input_list w)) =
     ([Sleep 5000], None, snd (clear_input_list w))"
  by (simp add: tick_def clear_input_list_def)

subsection \<open>Recording, then playback\<close>

lemma recording_inv_step:
  assumes "recording_inv xs s0 s" and "recording_session_step st"
  shows "recording_inv xs s0 (system_step st s)"
proof (cases st)
  case (Request r)
  with assms show ?thesis
    by (cases r) (auto simp: recording_inv_def get_gamepad_def get_recording_def
        get_playing_def get_input_list_def)
next
  case (MainThread x)
  from assms(1) obtain rec where r: "phase s = Transmitting" "truthy (recording (wrap s))"
    "\<not> truthy (playing (wrap s))" "input_list (wrap s) = Some (JArr (xs @ rec))"
    "appended (trace s) = appended (trace s0) @ rec"
    by (auto simp: recording_inv_def)
  let ?p = "json_copy (packet (wrap s))"
  have t: "tick (wrap s) = ([Transmit ?p, Append ?p, Sleep 1], None,
             (wrap s)\<lparr>input_list := Some (JArr (xs @ rec @ [?p]))\<rparr>)"
    using r by (simp add: tick_def Let_def)
  show ?thesis
    unfolding recording_inv_def MainThread
    by (rule exI [of _ "rec @ [?p]"])
      (simp add: main_thread_step_def r t appended_app)
qed

lemma recording_inv_run:
  "recording_inv xs s0 s \<Longrightarrow> \<forall>st \<in> set steps. recording_session_step st \<Longrightarrow>
   recording_inv xs s0 (run steps s)"
  by (induction steps arbitrary: s) (simp_all add: recording_inv_step)

text \<open>
  C6. Take the transmission loop with \<^verbatim>\<open>recording\<close> true, \<^verbatim>\<open>playing\<close> false and a recorded
  sequence \<open>xs\<close>, and any recording session: iterations of the loop in any order with new
  packets arriving. With \<open>rec\<close> the packets appended during the session, in order, the
  recorded sequence is then \<open>xs\<close> followed by \<open>rec\<close>, and once \<^verbatim>\<open>playing\<close> is set the next
  pass of the loop transmits exactly that sequence, in that order: the packets of \<open>rec\<close>
  themselves when the session began with an empty sequence, as it does after the
  connection and after a clear.
\<close>

theorem recording_then_playback_same_packets:
  assumes "phase s = Transmitting" and "input_list (wrap s) = Some (JArr xs)"
    and "truthy (recording (wrap s))" and "\<not> truthy (playing (wrap s))"
    and "\<forall>st \<in> set steps. recording_session_step st"
  shows "\<exists>rec. appended (trace (run steps s)) = appended (trace s) @ rec \<and>
           input_list (wrap (run steps s)) = Some (JArr (xs @ rec)) \<and>
           transmitted (fst (tick (snd (set_playing (JBool True) (wrap (run steps s)))))) =
             xs @ rec"
proof -
  have "recording_inv xs s s"
    using assms(1-4) by (simp add: recording_inv_def)
  then have "recording_inv xs s (run steps s)"
    using assms(5) by (rule recording_inv_run)
  then obtain rec where r: "input_list (wrap (run steps s)) = Some (JArr (xs @ rec))"
    "appended (trace (run steps s)) = appended (trace s) @ rec"
    by (auto simp: recording_inv_def)
  have "transmitted (fst (tick (snd (set_playing (JBool True) (wrap (run steps s)))))) = xs @ rec"
    using r(1) by (simp add: tick_def set_playing_def transmitted_app transmitted_play)
  with r show ?thesis by blast
qed

theorem recording_then_playback_same_packets_witness:
  "appended (trace (run example_session recording_system)) = [JInt 1, JInt 1, JInt 2] \<and>
   input_list (wrap (run example_session recording_system)) =
     Some (JArr [JInt 1, JInt 1, JInt 2]) \<and>
   transmitted (fst (tick (snd (set_playing (JBool True)
     (wrap (run example_session recording_system)))))) = [JInt 1, JInt 1, JInt 2]"
  using recording_then_playback_same_packets [of recording_system "[]" example_session]
  by (simp add: example_session_def recording_system_def recording_wrapper_def
      main_thread_step_def tick_def get_gamepad_def get_input_list_def set_playing_def
      json_copy_def)

subsection \<open>The key \<^verbatim>\<open>input_list\<close> before the connection\<close>

lemma step_keeps_absent:
  assumes "\<not> creates_input_list st" and "input_list (wrap s) = None" and "phase s = Connecting"
  shows "input_list (wrap (system_step st s)) = None \<and> phase (system_step st s) = Connecting"
proof (cases st)
  case (Request r)
  with assms show ?thesis
    by (cases r) (simp_all add: get_gamepad_def get_recording_def set_recording_def
        get_playing_def set_playing_def get_input_list_def)
next
  case (MainThread x)
  with assms show ?thesis
    by (auto simp: main_thread_step_def)
qed

lemma run_keeps_absent:
  "\<forall>st \<in> set steps. \<not> creates_input_list st \<Longrightarrow> input_list (wrap s) = None \<Longrightarrow>
   phase s = Connecting \<Longrightarrow> input_list (wrap (run steps s)) = None"
proof (induction steps arbitrary: s)
  case Nil
  then show ?case by simp
next
  case (Cons st steps)
  then show ?case using step_keeps_absent [of st s] by simp
qed

text \<open>Once the waiting loop has seen the connection, the endpoint answers with the empty list.\<close>

lemma get_input_list_after_connection:
  "fst (get_input_list (wrap (run [MainThread ''connected''] (initial_system idle)))) =
     Inr (Json (JArr []))"
  by (simp add: main_thread_step_def initial_system_def get_input_list_def)

text \<open>
  C10. From the start of the program, after any requests and any iterations of the waiting
  loop among which none is a set or clear of the recorded sequence and none sees the
  state \<^verbatim>\<open>connected\<close>, the key \<^verbatim>\<open>input_list\<close> is absent and \<^verbatim>\<open>get_input_list\<close> raises
  \<^verbatim>\<open>KeyError\<close>.
\<close>

theorem get_input_list_before_connection_raises:
  assumes "\<forall>st \<in> set steps. \<not> creates_input_list st"
  shows "input_list (wrap (run steps (initial_system idle))) = None \<and>
         fst (get_input_list (wrap (run steps (initial_system idle)))) =
           Inl (KeyError ''input_list'')"
proof -
  have "input_list (wrap (run steps (initial_system idle))) = None"
    using assms by (intro run_keeps_absent) (simp_all add: initial_system_def initial_wrapper_def)
  then show ?thesis by (simp add: get_input_list_def)
qed

theorem get_input_list_before_connection_raises_witness:
  "list_all (\<lambda>st. \<not> creates_input_list st) early_schedule \<and>
   fst (get_input_list (wrap (run early_schedule (initial_system JNull)))) =
     Inl (KeyError ''input_list'')"
  using get_input_list_before_connection_raises [of early_schedule JNull]
  by (simp add: early_schedule_def)

end
